theory Spec2Isabelle
  imports Main
begin

section \<open>Python values, dictionaries and the object store\<close>

text \<open>
  The three scripts under \<^verbatim>\<open>frank-ops/frank-ops-aws\<close> exchange flat key/value
  payloads. A Lambda event is a decoded JSON object, so the values a dictionary can hold
  are the JSON values (floating point numbers are left out: no handler inspects a value).
\<close>

datatype pyval =
    PNone
  | PBool bool
  | PInt int
  | PStr string
  | PList "pyval list"
  | PDict "(string \<times> pyval) list"

text \<open>
  A \<^verbatim>\<open>dict\<close> with string keys. Python passes dictionaries by reference, so a handler
  receives the address of its event; the store is the list of live dictionaries and an
  address is an index into it. A dictionary display allocates at the end of the store.
\<close>

type_synonym dict = "string \<rightharpoonup> pyval"
type_synonym addr = nat

text \<open>
  The exceptions the scripts can meet: \<^verbatim>\<open>KeyError\<close> with the missing key, the
  exception \<^verbatim>\<open>print\<close> raises when it cannot turn the event into text, the
  conflict the Lambda client raises when the function already exists, and any other failure,
  with its message. \<open>ReprError\<close> stands for the \<^verbatim>\<open>ValueError\<close> of an integer
  with too many digits and for the \<^verbatim>\<open>RecursionError\<close> of a value nested too deeply:
  when an event holds both, the first one in the order of its keys is raised, an order that a
  map does not record.
\<close>

datatype exn =
    KeyError string
  | ReprError
  | ResourceConflictException
  | OtherError string

text \<open>
  What \<^verbatim>\<open>print\<close> was given: literal text, or a dictionary as it was when printed.
  An entry of \<open>stdout\<close> is what one call to \<^verbatim>\<open>print\<close> wrote: a line, or the
  beginning of one when the call raised.
\<close>

datatype printed = Text string | Repr dict

type_synonym line = "printed list"

record pystate =
  heap :: "dict list"
  stdout :: "line list"

text \<open>\<^verbatim>\<open>d[k]\<close>: raises \<^verbatim>\<open>KeyError(k)\<close> when the key is absent.\<close>

definition dict_getitem :: "pystate \<Rightarrow> addr \<Rightarrow> string \<Rightarrow> exn + pyval" where
  "dict_getitem s a k =
     (case (heap s ! a) k of None \<Rightarrow> Inl (KeyError k) | Some v \<Rightarrow> Inr v)"

text \<open>\<^verbatim>\<open>d.get(k)\<close>: the default \<^verbatim>\<open>None\<close> when the key is absent.\<close>

definition dict_get :: "pystate \<Rightarrow> addr \<Rightarrow> string \<Rightarrow> pyval" where
  "dict_get s a k = (case (heap s ! a) k of None \<Rightarrow> PNone | Some v \<Rightarrow> v)"

text \<open>A dictionary display \<^verbatim>\<open>{...}\<close>: a new object, at the next free address.\<close>

definition dict_new :: "dict \<Rightarrow> pystate \<Rightarrow> addr \<times> pystate" where
  "dict_new d s = (length (heap s), s\<lparr>heap := heap s @ [d]\<rparr>)"

text \<open>
  \<^verbatim>\<open>print\<close> turns each argument into text with \<^verbatim>\<open>str\<close>, and
  \<^verbatim>\<open>str\<close> of a dictionary is the \<^verbatim>\<open>repr\<close> of each of its values. Two limits
  of the interpreter make it fail. Python 3.11, the runtime the invoker names, refuses to
  convert an integer of more than \<^verbatim>\<open>sys.get_int_max_str_digits()\<close> digits (4300 unless
  changed, 0 for no limit; the interpreter accepts no other value below 640) and raises
  \<^verbatim>\<open>ValueError\<close>. The \<^verbatim>\<open>repr\<close> of a list or
  dictionary calls itself on the elements, and raises \<^verbatim>\<open>RecursionError\<close> beyond the
  recursion limit: \<open>repr_depth\<close> is the number of containers that can still be nested
  inside the event when the handler prints, which depends on the limit and on the call stack.
\<close>

record interp =
  int_max_str_digits :: nat
  repr_depth :: nat

definition int_printable :: "interp \<Rightarrow> int \<Rightarrow> bool" where
  "int_printable I n = (int_max_str_digits I = 0 \<or> \<bar>n\<bar> < 10 ^ int_max_str_digits I)"

fun val_printable :: "interp \<Rightarrow> nat \<Rightarrow> pyval \<Rightarrow> bool" where
  "val_printable I room (PInt n) = int_printable I n"
| "val_printable I room (PList vs) =
     (case room of 0 \<Rightarrow> False | Suc r \<Rightarrow> list_all (val_printable I r) vs)"
| "val_printable I room (PDict kvs) =
     (case room of 0 \<Rightarrow> False | Suc r \<Rightarrow> list_all (\<lambda>kv. val_printable I r (snd kv)) kvs)"
| "val_printable I room v = True"

definition dict_printable :: "interp \<Rightarrow> dict \<Rightarrow> bool" where
  "dict_printable I d = (\<forall>v \<in> ran d. val_printable I (repr_depth I) v)"

text \<open>
  \<^verbatim>\<open>print(text, d)\<close>: the arguments are written one after the other, so the text is
  already out when the conversion of the dictionary raises.
\<close>

definition py_print :: "interp \<Rightarrow> string \<Rightarrow> dict \<Rightarrow> pystate \<Rightarrow> (exn + unit) \<times> pystate" where
  "py_print I text d s =
     (if dict_printable I d
      then (Inr (), s\<lparr>stdout := stdout s @ [[Text text, Repr d]]\<rparr>)
      else (Inl ReprError, s\<lparr>stdout := stdout s @ [[Text text]]\<rparr>))"

text \<open>
  The dictionary a call returned, read through the returned reference in the state the
  call left behind; an exception is passed on.
\<close>

definition result_of :: "(exn + addr) \<times> pystate \<Rightarrow> exn + dict" where
  "result_of r = (case fst r of Inl e \<Rightarrow> Inl e | Inr a \<Rightarrow> Inr (heap (snd r) ! a))"

section \<open>The handlers\<close>

text \<open>
  \<^verbatim>\<open>lambda_hello.py\<close>:
  \<^verbatim>\<open>
  def handler(event, context):
      return {
          "correlationID": event["correlationID"],
          "message": event["message"]
      }
  \<close>
  The display evaluates its entries from left to right, so the subscript for
  \<^verbatim>\<open>correlationID\<close> runs first and its \<^verbatim>\<open>KeyError\<close> ends the call.
\<close>

definition lambda_hello_handler :: "addr \<Rightarrow> 'ctx \<Rightarrow> pystate \<Rightarrow> (exn + addr) \<times> pystate" where
  "lambda_hello_handler event context s =
     (case dict_getitem s event ''correlationID'' of
        Inl e \<Rightarrow> (Inl e, s)
      | Inr c \<Rightarrow>
          (case dict_getitem s event ''message'' of
             Inl e \<Rightarrow> (Inl e, s)
           | Inr m \<Rightarrow>
               (case dict_new [''correlationID'' \<mapsto> c, ''message'' \<mapsto> m] s of
                  (a, s') \<Rightarrow> (Inr a, s'))))"

text \<open>
  \<^verbatim>\<open>send_hello_batch.py\<close>:
  \<^verbatim>\<open>
  def handler(event, context):
      print("Lambda invoked! Event:", event)
      return {"correlationID": event.get("correlationID"), "message": event.get("message")}
  \<close>
  The handler runs in an interpreter, whose limits on printing are the first argument; an
  exception of \<^verbatim>\<open>print\<close> ends the call before anything is looked up.
\<close>

definition send_hello_batch_handler ::
  "interp \<Rightarrow> addr \<Rightarrow> 'ctx \<Rightarrow> pystate \<Rightarrow> (exn + addr) \<times> pystate" where
  "send_hello_batch_handler I event context s =
     (case py_print I ''Lambda invoked! Event:'' (heap s ! event) s of
        (Inl e, s1) \<Rightarrow> (Inl e, s1)
      | (Inr u, s1) \<Rightarrow>
          (let c = dict_get s1 event ''correlationID'';
               m = dict_get s1 event ''message''
           in case dict_new [''correlationID'' \<mapsto> c, ''message'' \<mapsto> m] s1 of
                (a, s2) \<Rightarrow> (Inr a, s2)))"

text \<open>The payload both scripts build: \<^verbatim>\<open>{"message": "hello world", "correlationID": "123"}\<close>.\<close>

definition payload :: dict where
  "payload = [''message'' \<mapsto> PStr ''hello world'', ''correlationID'' \<mapsto> PStr ''123'']"

section \<open>The invoker: create the function unless it exists\<close>

text \<open>
  \<^verbatim>\<open>lambda_boto3_test.py\<close>, lines 20 to 29:
  \<^verbatim>\<open>
  try:
      response = lambda_client.create_function(
          FunctionName="helloLambda",
          Runtime="python3.11",
          Role="arn:aws:iam::000000000000:role/lambda-role",
          Handler="lambda_hello.handler",
          Code={"ZipFile": code_bytes},
      )
  except lambda_client.exceptions.ResourceConflictException:
      print("Lambda helloLambda already exists, skipping creation")
  \<close>
  The Lambda service is outside the repository: its \<^verbatim>\<open>create_function\<close> is a parameter,
  a function from the request and the service's state to an outcome and the next state.
\<close>

record create_request =
  FunctionName :: string
  Runtime :: string
  Role :: string
  Handler :: string
  ZipFile :: string

definition hello_request :: "string \<Rightarrow> create_request" where
  "hello_request code_bytes =
     \<lparr>FunctionName = ''helloLambda'',
      Runtime = ''python3.11'',
      Role = ''arn:aws:iam::000000000000:role/lambda-role'',
      Handler = ''lambda_hello.handler'',
      ZipFile = code_bytes\<rparr>"

definition already_exists_line :: line where
  "already_exists_line = [Text ''Lambda helloLambda already exists, skipping creation'']"

definition ensure_function_exists ::
  "(create_request \<Rightarrow> 'svc \<Rightarrow> (exn + 'resp) \<times> 'svc) \<Rightarrow> string \<Rightarrow>
     'svc \<times> line list \<Rightarrow> (exn + unit) \<times> 'svc \<times> line list" where
  "ensure_function_exists create_function code_bytes st =
     (case st of (svc, out) \<Rightarrow>
        (case create_function (hello_request code_bytes) svc of
           (Inr response, svc') \<Rightarrow> (Inr (), svc', out)
         | (Inl ResourceConflictException, svc') \<Rightarrow> (Inr (), svc', out @ [already_exists_line])
         | (Inl e, svc') \<Rightarrow> (Inl e, svc', out)))"

text \<open>
  Modelled from the spec: the emulated service's create-function call, which is not part
  of the repository. Section 6 of the specification: it "accepts function name, runtime
  identifier, execution-role identifier, handler entry point string, and a code bundle"
  and "returns success or a resource already exists signal"; section 3: the function
  resource is "keyed by name". The service's state is the list of the names created so far,
  the response to a successful creation is the name.
\<close>

definition emulator_create_function :: "create_request \<Rightarrow> string list \<Rightarrow> (exn + string) \<times> string list" where
  "emulator_create_function req names =
     (if FunctionName req \<in> set names then (Inl ResourceConflictException, names)
      else (Inr (FunctionName req), FunctionName req # names))"

section \<open>Example inputs\<close>

text \<open>An event with a third key besides the two the handlers read.\<close>

definition three_key_event :: dict where
  "three_key_event =
     [''correlationID'' \<mapsto> PStr ''abc'', ''message'' \<mapsto> PInt 7, ''extra'' \<mapsto> PBool True]"

text \<open>Events that lack one of the two keys.\<close>

definition only_message_event :: dict where
  "only_message_event = [''message'' \<mapsto> PStr ''hi'']"

definition only_correlation_event :: dict where
  "only_correlation_event = [''correlationID'' \<mapsto> PStr ''42'']"




text \<open>An interpreter with the default digit limit and room for 500 nested containers.\<close>

definition example_interp :: interp where
  "example_interp = \<lparr>int_max_str_digits = 4300, repr_depth = 500\<rparr>"

text \<open>A store holding one dictionary, with nothing printed yet.\<close>

definition store_of :: "dict \<Rightarrow> pystate" where
  "store_of d = \<lparr>heap = [d], stdout = []\<rparr>"

text \<open>A service whose create-function call always fails with an error other than the conflict.\<close>

definition unavailable_create_function ::
  "create_request \<Rightarrow> string list \<Rightarrow> (exn + string) \<times> string list" where
  "unavailable_create_function req names = (Inl (OtherError ''connection refused''), names)"

section \<open>What a call of each handler does\<close>

lemmas prim_defs = dict_getitem_def dict_get_def dict_new_def py_print_def

lemma lambda_hello_handler_found:
  assumes "(heap s ! event) ''correlationID'' = Some c"
      and "(heap s ! event) ''message'' = Some m"
  shows "lambda_hello_handler event ctx s =
           (Inr (length (heap s)),
            s\<lparr>heap := heap s @ [[''correlationID'' \<mapsto> c, ''message'' \<mapsto> m]]\<rparr>)"
  using assms by (simp add: lambda_hello_handler_def prim_defs)

lemma lambda_hello_handler_no_correlation:
  assumes "(heap s ! event) ''correlationID'' = None"
  shows "lambda_hello_handler event ctx s = (Inl (KeyError ''correlationID''), s)"
  using assms by (simp add: lambda_hello_handler_def prim_defs)

lemma lambda_hello_handler_no_message:
  assumes "(heap s ! event) ''correlationID'' = Some c"
      and "(heap s ! event) ''message'' = None"
  shows "lambda_hello_handler event ctx s = (Inl (KeyError ''message''), s)"
  using assms by (simp add: lambda_hello_handler_def prim_defs)

lemma send_hello_batch_handler_printed:
  assumes "dict_printable I (heap s ! event)"
  shows "send_hello_batch_handler I event ctx s =
     (Inr (length (heap s)),
      s\<lparr>heap := heap s @
            [[''correlationID'' \<mapsto> (case (heap s ! event) ''correlationID'' of None \<Rightarrow> PNone | Some v \<Rightarrow> v),
              ''message'' \<mapsto> (case (heap s ! event) ''message'' of None \<Rightarrow> PNone | Some v \<Rightarrow> v)]],
         stdout := stdout s @ [[Text ''Lambda invoked! Event:'', Repr (heap s ! event)]]\<rparr>)"
  using assms by (simp add: send_hello_batch_handler_def prim_defs)

lemma send_hello_batch_handler_print_fails:
  assumes "\<not> dict_printable I (heap s ! event)"
  shows "send_hello_batch_handler I event ctx s =
     (Inl ReprError, s\<lparr>stdout := stdout s @ [[Text ''Lambda invoked! Event:'']]\<rparr>)"
  using assms by (simp add: send_hello_batch_handler_def prim_defs)

lemma result_of_new:
  "result_of (Inr (length (heap s)), s\<lparr>heap := heap s @ [d], stdout := out\<rparr>) = Inr d"
  "result_of (Inr (length (heap s)), s\<lparr>heap := heap s @ [d]\<rparr>) = Inr d"
  "result_of (Inl e, s) = Inl e"
  by (simp_all add: result_of_def)

lemma result_of_lambda_hello_handler:
  "result_of (lambda_hello_handler event ctx s) =
     (case (heap s ! event) ''correlationID'' of
        None \<Rightarrow> Inl (KeyError ''correlationID'')
      | Some c \<Rightarrow>
          (case (heap s ! event) ''message'' of
             None \<Rightarrow> Inl (KeyError ''message'')
           | Some m \<Rightarrow> Inr [''correlationID'' \<mapsto> c, ''message'' \<mapsto> m]))"
  by (simp add: lambda_hello_handler_found lambda_hello_handler_no_correlation
        lambda_hello_handler_no_message result_of_new split: option.splits)

lemma result_of_send_hello_batch_handler:
  "result_of (send_hello_batch_handler I event ctx s) =
     (if dict_printable I (heap s ! event)
      then Inr [''correlationID'' \<mapsto>
                  (case (heap s ! event) ''correlationID'' of None \<Rightarrow> PNone | Some v \<Rightarrow> v),
                ''message'' \<mapsto>
                  (case (heap s ! event) ''message'' of None \<Rightarrow> PNone | Some v \<Rightarrow> v)]
      else Inl ReprError)"
  by (simp add: send_hello_batch_handler_printed send_hello_batch_handler_print_fails result_of_new)

subsection \<open>Which events can be printed\<close>



lemma dict_printable_iff:
  "dict_printable I d \<longleftrightarrow> (\<forall>k v. d k = Some v \<longrightarrow> val_printable I (repr_depth I) v)"
  by (auto simp: dict_printable_def ran_def)


lemma dict_printable_none_upd:
  "dict_printable I (d(k \<mapsto> PNone)) = dict_printable I (d(k := None))"
  by (auto simp: dict_printable_iff split: if_splits)

lemma payload_printable: "dict_printable I payload"
  by (auto simp: dict_printable_iff payload_def split: if_splits)



lemma only_correlation_event_printable: "dict_printable I only_correlation_event"
  by (auto simp: dict_printable_iff only_correlation_event_def split: if_splits)







lemma heap_store_of [simp]: "heap (store_of d) = [d]"
  by (simp add: store_of_def)

section \<open>The handler contract\<close>




text \<open>
  Claim C2. The strict handler fails with a \<^verbatim>\<open>KeyError\<close> on the empty event, and
  more generally whenever \<^verbatim>\<open>correlationID\<close> or \<^verbatim>\<open>message\<close> is absent from
  the event; the error names one of the two keys, absent from the event, and the store stays as
  it was.
\<close>

theorem strict_handler_missing_key:
  assumes "event < length (heap s)"
  shows "(heap s ! event = Map.empty \<longrightarrow>
            (\<exists>k. lambda_hello_handler event ctx s = (Inl (KeyError k), s)))
       \<and> ((heap s ! event) ''correlationID'' = None \<or> (heap s ! event) ''message'' = None \<longrightarrow>
            (\<exists>k \<in> {''correlationID'', ''message''}. (heap s ! event) k = None \<and>
               lambda_hello_handler event ctx s = (Inl (KeyError k), s)))"
proof (intro conjI impI)
  assume "heap s ! event = Map.empty"
  then have "(heap s ! event) ''correlationID'' = None"
    by simp
  then show "\<exists>k. lambda_hello_handler event ctx s = (Inl (KeyError k), s)"
    by (blast intro: lambda_hello_handler_no_correlation)
next
  assume absent: "(heap s ! event) ''correlationID'' = None \<or> (heap s ! event) ''message'' = None"
  show "\<exists>k \<in> {''correlationID'', ''message''}. (heap s ! event) k = None \<and>
          lambda_hello_handler event ctx s = (Inl (KeyError k), s)"
  proof (cases "(heap s ! event) ''correlationID''")
    case None
    then show ?thesis
      by (simp add: lambda_hello_handler_no_correlation)
  next
    case (Some c)
    with absent have "(heap s ! event) ''message'' = None"
      by simp
    with Some show ?thesis
      by (simp add: lambda_hello_handler_no_message)
  qed
qed

theorem strict_handler_missing_key_witness:
  "(0::nat) < length (heap (store_of Map.empty))
   \<and> heap (store_of Map.empty) ! 0 = Map.empty
   \<and> (\<exists>k. lambda_hello_handler 0 () (store_of Map.empty) = (Inl (KeyError k), store_of Map.empty))
   \<and> (0::nat) < length (heap (store_of only_correlation_event))
   \<and> (heap (store_of only_correlation_event) ! 0) ''message'' = None
   \<and> (\<exists>k \<in> {''correlationID'', ''message''}. (heap (store_of only_correlation_event) ! 0) k = None \<and>
         lambda_hello_handler 0 () (store_of only_correlation_event) =
           (Inl (KeyError k), store_of only_correlation_event))"
proof -
  let ?e = "store_of Map.empty"
  let ?c = "store_of only_correlation_event"
  have ve: "(0::nat) < length (heap ?e)" and vc: "(0::nat) < length (heap ?c)"
    by simp_all
  have he: "heap ?e ! 0 = Map.empty"
    by simp
  have hc: "(heap ?c ! 0) ''message'' = None"
    by (simp add: only_correlation_event_def)
  from strict_handler_missing_key [OF ve, where ctx = "()"] he
  have 1: "\<exists>k. lambda_hello_handler 0 () ?e = (Inl (KeyError k), ?e)"
    by blast
  from strict_handler_missing_key [OF vc, where ctx = "()"] hc
  have 2: "\<exists>k \<in> {''correlationID'', ''message''}. (heap ?c ! 0) k = None \<and>
             lambda_hello_handler 0 () ?c = (Inl (KeyError k), ?c)"
    by blast
  from ve he 1 vc hc 2 show ?thesis
    by blast
qed




text \<open>
  Claim C10. The strict handler looks \<^verbatim>\<open>correlationID\<close> up first: an event without
  \<^verbatim>\<open>correlationID\<close> makes it raise \<^verbatim>\<open>KeyError('correlationID')\<close> whether or not
  \<^verbatim>\<open>message\<close> is there, and an event with \<^verbatim>\<open>correlationID\<close> but without
  \<^verbatim>\<open>message\<close> makes it raise \<^verbatim>\<open>KeyError('message')\<close>.
\<close>

theorem strict_handler_lookup_order:
  assumes "event < length (heap s)"
  shows "((heap s ! event) ''correlationID'' = None \<longrightarrow>
            lambda_hello_handler event ctx s = (Inl (KeyError ''correlationID''), s))
       \<and> ((heap s ! event) ''correlationID'' \<noteq> None \<and> (heap s ! event) ''message'' = None \<longrightarrow>
            lambda_hello_handler event ctx s = (Inl (KeyError ''message''), s))"
  by (auto simp: lambda_hello_handler_no_correlation lambda_hello_handler_no_message)

theorem strict_handler_lookup_order_witness:
  "(0::nat) < length (heap (store_of only_message_event))
   \<and> (heap (store_of only_message_event) ! 0) ''correlationID'' = None
   \<and> (heap (store_of only_message_event) ! 0) ''message'' \<noteq> None
   \<and> lambda_hello_handler 0 () (store_of only_message_event) =
       (Inl (KeyError ''correlationID''), store_of only_message_event)
   \<and> (0::nat) < length (heap (store_of only_correlation_event))
   \<and> (heap (store_of only_correlation_event) ! 0) ''correlationID'' \<noteq> None
   \<and> (heap (store_of only_correlation_event) ! 0) ''message'' = None
   \<and> lambda_hello_handler 0 () (store_of only_correlation_event) =
       (Inl (KeyError ''message''), store_of only_correlation_event)"
proof -
  let ?m = "store_of only_message_event"
  let ?c = "store_of only_correlation_event"
  have vm: "(0::nat) < length (heap ?m)" and vc: "(0::nat) < length (heap ?c)"
    by simp_all
  have m1: "(heap ?m ! 0) ''correlationID'' = None" and m2: "(heap ?m ! 0) ''message'' \<noteq> None"
    by (simp_all add: only_message_event_def)
  have c1: "(heap ?c ! 0) ''correlationID'' \<noteq> None" and c2: "(heap ?c ! 0) ''message'' = None"
    by (simp_all add: only_correlation_event_def)
  from strict_handler_lookup_order [OF vm, where ctx = "()"] m1
  have 1: "lambda_hello_handler 0 () ?m = (Inl (KeyError ''correlationID''), ?m)"
    by blast
  from strict_handler_lookup_order [OF vc, where ctx = "()"] c1 c2
  have 2: "lambda_hello_handler 0 () ?c = (Inl (KeyError ''message''), ?c)"
    by blast
  from vm m1 m2 1 vc c1 c2 2 show ?thesis
    by blast
qed

text \<open>
  Claim C5. On the event \<^verbatim>\<open>{"message": "hello world", "correlationID": "123"}\<close>, the
  payload the invoker sends, the handler returns exactly
  \<^verbatim>\<open>{"correlationID": "123", "message": "hello world"}\<close>; so does the logging handler,
  whatever the interpreter's limits on printing.
\<close>

theorem end_to_end_example:
  assumes "event < length (heap s)" and "heap s ! event = payload"
  shows "result_of (lambda_hello_handler event ctx s) =
           Inr [''correlationID'' \<mapsto> PStr ''123'', ''message'' \<mapsto> PStr ''hello world'']
       \<and> result_of (send_hello_batch_handler I event ctx s) =
           Inr [''correlationID'' \<mapsto> PStr ''123'', ''message'' \<mapsto> PStr ''hello world'']"
proof -
  have "dict_printable I (heap s ! event)"
    using assms(2) by (simp add: payload_printable)
  then show ?thesis
    using assms(2)
    by (simp add: result_of_lambda_hello_handler result_of_send_hello_batch_handler payload_def)
qed

theorem end_to_end_example_witness:
  "(0::nat) < length (heap (store_of payload))
   \<and> heap (store_of payload) ! 0 = payload
   \<and> result_of (lambda_hello_handler 0 () (store_of payload)) =
       Inr [''correlationID'' \<mapsto> PStr ''123'', ''message'' \<mapsto> PStr ''hello world'']
   \<and> result_of (send_hello_batch_handler example_interp 0 () (store_of payload)) =
       Inr [''correlationID'' \<mapsto> PStr ''123'', ''message'' \<mapsto> PStr ''hello world'']"
proof -
  have v: "(0::nat) < length (heap (store_of payload))"
    by simp
  have h: "heap (store_of payload) ! 0 = payload"
    by simp
  from end_to_end_example [OF v h, where ctx = "()" and I = example_interp] v h show ?thesis
    by blast
qed

section \<open>Purity of the handlers\<close>

text \<open>
  Claim C7. The context argument is unused: with the same event and store, any two contexts
  give the same outcome, whether a returned dictionary or an exception, and the same store and
  output afterwards. The returned dictionary, or the exception, is a function of the event's
  content alone: two calls on equal events, in the same interpreter, agree on it whatever else
  the store holds.
\<close>

theorem handlers_ignore_context:
  "lambda_hello_handler event c1 s = lambda_hello_handler event c2 s
   \<and> send_hello_batch_handler I event c1 s = send_hello_batch_handler I event c2 s
   \<and> (event < length (heap s) \<and> event' < length (heap s') \<and> heap s ! event = heap s' ! event' \<longrightarrow>
        result_of (lambda_hello_handler event c1 s) = result_of (lambda_hello_handler event' c2 s')
      \<and> result_of (send_hello_batch_handler I event c1 s) =
          result_of (send_hello_batch_handler I event' c2 s'))"
proof (intro conjI impI)
  show "lambda_hello_handler event c1 s = lambda_hello_handler event c2 s"
    by (simp add: lambda_hello_handler_def)
  show "send_hello_batch_handler I event c1 s = send_hello_batch_handler I event c2 s"
    by (simp add: send_hello_batch_handler_def)
next
  assume "event < length (heap s) \<and> event' < length (heap s') \<and> heap s ! event = heap s' ! event'"
  then have same: "heap s ! event = heap s' ! event'"
    by simp
  show "result_of (lambda_hello_handler event c1 s) = result_of (lambda_hello_handler event' c2 s')"
    by (simp only: result_of_lambda_hello_handler same)
  show "result_of (send_hello_batch_handler I event c1 s) =
      result_of (send_hello_batch_handler I event' c2 s')"
    by (simp only: result_of_send_hello_batch_handler same)
qed

theorem handlers_ignore_context_witness:
  "(0::nat) < length (heap (store_of three_key_event))
   \<and> (1::nat) < length (heap \<lparr>heap = [payload, three_key_event], stdout = [[Text ''x'']]\<rparr>)
   \<and> heap (store_of three_key_event) ! 0 =
       heap \<lparr>heap = [payload, three_key_event], stdout = [[Text ''x'']]\<rparr> ! 1
   \<and> result_of (lambda_hello_handler 0 True (store_of three_key_event)) =
       result_of (lambda_hello_handler 1 ''ctx''
          \<lparr>heap = [payload, three_key_event], stdout = [[Text ''x'']]\<rparr>)
   \<and> result_of (send_hello_batch_handler example_interp 0 True (store_of three_key_event)) =
       result_of (send_hello_batch_handler example_interp 1 ''ctx''
          \<lparr>heap = [payload, three_key_event], stdout = [[Text ''x'']]\<rparr>)"
proof -
  let ?s = "store_of three_key_event"
  let ?t = "\<lparr>heap = [payload, three_key_event], stdout = [[Text ''x'']]\<rparr>"
  have v: "(0::nat) < length (heap ?s)" and w: "(1::nat) < length (heap ?t)"
    by simp_all
  have h: "heap ?s ! 0 = heap ?t ! 1"
    by simp
  from handlers_ignore_context [where event = 0 and s = ?s and event' = 1 and s' = ?t
      and ?c1.0 = True and ?c2.0 = "''ctx''" and I = example_interp] v w h
  show ?thesis
    by blast
qed

text \<open>
  Claim C8. Neither handler mutates its input: after a call the dictionary at the event's
  address is the one that was there before, and so is every other dictionary that existed;
  a call only adds the dictionary it returns.
\<close>

theorem handlers_leave_event_unchanged:
  assumes "event < length (heap s)"
  shows "heap (snd (lambda_hello_handler event ctx s)) ! event = heap s ! event
       \<and> heap (snd (send_hello_batch_handler I event ctx s)) ! event = heap s ! event
       \<and> take (length (heap s)) (heap (snd (lambda_hello_handler event ctx s))) = heap s
       \<and> take (length (heap s)) (heap (snd (send_hello_batch_handler I event ctx s))) = heap s"
proof -
  have strict: "heap (snd (lambda_hello_handler event ctx s)) = heap s
      \<or> (\<exists>d. heap (snd (lambda_hello_handler event ctx s)) = heap s @ [d])"
    by (simp add: lambda_hello_handler_def dict_getitem_def dict_new_def split: option.splits)
  have logging: "heap (snd (send_hello_batch_handler I event ctx s)) = heap s
      \<or> (\<exists>d. heap (snd (send_hello_batch_handler I event ctx s)) = heap s @ [d])"
  proof (cases "dict_printable I (heap s ! event)")
    case True
    then show ?thesis
      by (simp add: send_hello_batch_handler_printed)
  next
    case False
    then show ?thesis
      by (simp add: send_hello_batch_handler_print_fails)
  qed
  from strict logging assms show ?thesis
    by (auto simp: nth_append)
qed

theorem handlers_leave_event_unchanged_witness:
  "(0::nat) < length (heap (store_of three_key_event))
   \<and> heap (snd (lambda_hello_handler 0 () (store_of three_key_event))) ! 0 = three_key_event
   \<and> heap (snd (send_hello_batch_handler example_interp 0 () (store_of three_key_event))) ! 0 =
       three_key_event
   \<and> take 1 (heap (snd (lambda_hello_handler 0 () (store_of three_key_event)))) = [three_key_event]
   \<and> take 1 (heap (snd (send_hello_batch_handler example_interp 0 () (store_of three_key_event)))) =
       [three_key_event]"
proof -
  have v: "(0::nat) < length (heap (store_of three_key_event))"
    by simp
  from handlers_leave_event_unchanged [OF v, where ctx = "()" and I = example_interp] v
  show ?thesis
    by simp
qed

text \<open>
  Claim C9. The logging handler cannot tell an absent key from a key mapped to
  \<^verbatim>\<open>None\<close>: for each of the two keys, it returns the same dictionary on an event
  without the key and on the same event with the key mapped to \<^verbatim>\<open>None\<close>.
\<close>

theorem logging_handler_absent_equals_null:
  assumes "event < length (heap s)" and "k \<in> {''correlationID'', ''message''}"
  shows "result_of (send_hello_batch_handler I event ctx (s\<lparr>heap := (heap s)[event := d(k := None)]\<rparr>))
       = result_of (send_hello_batch_handler I event ctx (s\<lparr>heap := (heap s)[event := d(k \<mapsto> PNone)]\<rparr>))"
  using assms by (auto simp: result_of_send_hello_batch_handler dict_printable_none_upd)

theorem logging_handler_absent_equals_null_witness:
  "(0::nat) < length (heap (store_of Map.empty))
   \<and> ''message'' \<in> {''correlationID'', ''message''}
   \<and> result_of (send_hello_batch_handler example_interp 0 ()
         (store_of Map.empty\<lparr>heap := (heap (store_of Map.empty))[0 := only_correlation_event(''message'' := None)]\<rparr>))
     = result_of (send_hello_batch_handler example_interp 0 ()
         (store_of Map.empty\<lparr>heap := (heap (store_of Map.empty))[0 := only_correlation_event(''message'' \<mapsto> PNone)]\<rparr>))"
proof -
  have v: "(0::nat) < length (heap (store_of Map.empty))"
    by simp
  have k: "''message'' \<in> {''correlationID'', ''message''}"
    by simp
  from logging_handler_absent_equals_null
    [OF v k, where ctx = "()" and d = only_correlation_event and I = example_interp] v k
  show ?thesis
    by blast
qed

section \<open>Creating the function is idempotent\<close>

lemma ensure_returns_iff:
  "fst (ensure_function_exists create_function code_bytes (svc, out)) = Inr () \<longleftrightarrow>
     fst (create_function (hello_request code_bytes) svc) = Inl ResourceConflictException
     \<or> (\<exists>r. fst (create_function (hello_request code_bytes) svc) = Inr r)"
  by (cases "create_function (hello_request code_bytes) svc")
     (auto simp: ensure_function_exists_def split: sum.splits exn.splits)

lemma ensure_service_state:
  "fst (snd (ensure_function_exists create_function code_bytes (svc, out))) =
     snd (create_function (hello_request code_bytes) svc)"
  by (cases "create_function (hello_request code_bytes) svc")
     (auto simp: ensure_function_exists_def split: sum.splits exn.splits)

text \<open>
  Claim C4. The step that ensures the function exists catches the conflict signal of
  \<^verbatim>\<open>create_function\<close>, prints a message and goes on; every other failure of the creation
  is passed on to the caller, where nothing catches it. So a second run after a first one that
  returned does not raise, for every service that answers the creation of an existing name
  with the conflict signal and in which a name exists once its creation has succeeded or met
  the conflict.
\<close>

theorem ensure_function_exists_idempotent:
  fixes create_function :: "create_request \<Rightarrow> 'svc \<Rightarrow> (exn + 'resp) \<times> 'svc"
  shows "(create_function (hello_request code_bytes) svc = (Inr response, svc') \<longrightarrow>
            ensure_function_exists create_function code_bytes (svc, out) = (Inr (), svc', out))
       \<and> (create_function (hello_request code_bytes) svc = (Inl ResourceConflictException, svc') \<longrightarrow>
            ensure_function_exists create_function code_bytes (svc, out) =
              (Inr (), svc', out @ [already_exists_line]))
       \<and> (create_function (hello_request code_bytes) svc = (Inl e, svc') \<and>
            e \<noteq> ResourceConflictException \<longrightarrow>
            ensure_function_exists create_function code_bytes (svc, out) = (Inl e, svc', out))
       \<and> ((\<forall>req s. fn_exists (FunctionName req) s \<longrightarrow>
                fst (create_function req s) = Inl ResourceConflictException)
          \<and> (\<forall>req s. fst (create_function req s) = Inl ResourceConflictException
                    \<or> (\<exists>r. fst (create_function req s) = Inr r) \<longrightarrow>
                fn_exists (FunctionName req) (snd (create_function req s)))
          \<and> fst (ensure_function_exists create_function code_bytes (svc, out)) = Inr () \<longrightarrow>
            fst (ensure_function_exists create_function code_bytes
                   (snd (ensure_function_exists create_function code_bytes (svc, out)))) = Inr ())"
proof (intro conjI impI)
  assume "create_function (hello_request code_bytes) svc = (Inr response, svc')"
  then show "ensure_function_exists create_function code_bytes (svc, out) = (Inr (), svc', out)"
    by (simp add: ensure_function_exists_def)
next
  assume "create_function (hello_request code_bytes) svc = (Inl ResourceConflictException, svc')"
  then show "ensure_function_exists create_function code_bytes (svc, out) =
               (Inr (), svc', out @ [already_exists_line])"
    by (simp add: ensure_function_exists_def)
next
  assume "create_function (hello_request code_bytes) svc = (Inl e, svc') \<and>
            e \<noteq> ResourceConflictException"
  then show "ensure_function_exists create_function code_bytes (svc, out) = (Inl e, svc', out)"
    by (cases e) (simp_all add: ensure_function_exists_def)
next
  let ?req = "hello_request code_bytes"
  let ?first = "ensure_function_exists create_function code_bytes (svc, out)"
  assume contract: "(\<forall>req s. fn_exists (FunctionName req) s \<longrightarrow>
                fst (create_function req s) = Inl ResourceConflictException)
          \<and> (\<forall>req s. fst (create_function req s) = Inl ResourceConflictException
                    \<or> (\<exists>r. fst (create_function req s) = Inr r) \<longrightarrow>
                fn_exists (FunctionName req) (snd (create_function req s)))
          \<and> fst ?first = Inr ()"
  obtain svc1 out1 where first: "snd ?first = (svc1, out1)"
    by (cases "snd ?first")
  have svc1: "svc1 = snd (create_function ?req svc)"
    using ensure_service_state [of create_function code_bytes svc out] first by simp
  from contract have "fst (create_function ?req svc) = Inl ResourceConflictException
     \<or> (\<exists>r. fst (create_function ?req svc) = Inr r)"
    by (simp add: ensure_returns_iff)
  with contract have "fn_exists (FunctionName ?req) svc1"
    unfolding svc1 by blast
  with contract have "fst (create_function ?req svc1) = Inl ResourceConflictException"
    by blast
  then have "fst (ensure_function_exists create_function code_bytes (svc1, out1)) = Inr ()"
    by (simp add: ensure_returns_iff)
  then show "fst (ensure_function_exists create_function code_bytes (snd ?first)) = Inr ()"
    by (simp add: first)
qed

theorem ensure_function_exists_idempotent_witness:
  "emulator_create_function (hello_request ''zip'') [] = (Inr ''helloLambda'', [''helloLambda''])
   \<and> ensure_function_exists emulator_create_function ''zip'' ([], []) =
       (Inr (), [''helloLambda''], [])
   \<and> emulator_create_function (hello_request ''zip'') [''helloLambda''] =
       (Inl ResourceConflictException, [''helloLambda''])
   \<and> ensure_function_exists emulator_create_function ''zip'' ([''helloLambda''], []) =
       (Inr (), [''helloLambda''], [already_exists_line])
   \<and> unavailable_create_function (hello_request ''zip'') [] =
       (Inl (OtherError ''connection refused''), [])
   \<and> OtherError ''connection refused'' \<noteq> ResourceConflictException
   \<and> ensure_function_exists unavailable_create_function ''zip'' ([], []) =
       (Inl (OtherError ''connection refused''), [], [])
   \<and> fst (ensure_function_exists emulator_create_function ''zip'' ([], [])) = Inr ()
   \<and> fst (ensure_function_exists emulator_create_function ''zip''
            (snd (ensure_function_exists emulator_create_function ''zip'' ([], [])))) = Inr ()"
proof -
  let ?fn_exists = "\<lambda>name names. name \<in> set names"
  have created: "emulator_create_function (hello_request ''zip'') [] =
      (Inr ''helloLambda'', [''helloLambda''])"
    by (simp add: emulator_create_function_def hello_request_def)
  have conflict: "emulator_create_function (hello_request ''zip'') [''helloLambda''] =
      (Inl ResourceConflictException, [''helloLambda''])"
    by (simp add: emulator_create_function_def hello_request_def)
  have refused: "unavailable_create_function (hello_request ''zip'') [] =
      (Inl (OtherError ''connection refused''), [])"
    by (simp add: unavailable_create_function_def)
  have other: "OtherError ''connection refused'' \<noteq> ResourceConflictException"
    by simp
  have c1: "\<forall>req s. ?fn_exists (FunctionName req) s \<longrightarrow>
      fst (emulator_create_function req s) = Inl ResourceConflictException"
    by (simp add: emulator_create_function_def)
  have c2: "\<forall>req s. fst (emulator_create_function req s) = Inl ResourceConflictException
             \<or> (\<exists>r. fst (emulator_create_function req s) = Inr r) \<longrightarrow>
         ?fn_exists (FunctionName req) (snd (emulator_create_function req s))"
    by (simp add: emulator_create_function_def)
  note at_empty = ensure_function_exists_idempotent
    [where create_function = emulator_create_function and code_bytes = "''zip''" and svc = "[]"
       and out = "[]" and fn_exists = ?fn_exists]
  note at_existing = ensure_function_exists_idempotent
    [where create_function = emulator_create_function and code_bytes = "''zip''"
       and svc = "[''helloLambda'']" and out = "[]"]
  note at_refused = ensure_function_exists_idempotent
    [where create_function = unavailable_create_function and code_bytes = "''zip''" and svc = "[]"
       and out = "[]"]
  from at_empty created
  have 1: "ensure_function_exists emulator_create_function ''zip'' ([], []) =
      (Inr (), [''helloLambda''], [])"
    by blast
  from at_existing conflict
  have 2: "ensure_function_exists emulator_create_function ''zip'' ([''helloLambda''], []) =
      (Inr (), [''helloLambda''], [already_exists_line])"
    by fastforce
  from at_refused refused other
  have 3: "ensure_function_exists unavailable_create_function ''zip'' ([], []) =
      (Inl (OtherError ''connection refused''), [], [])"
    by blast
  have 4: "fst (ensure_function_exists emulator_create_function ''zip'' ([], [])) = Inr ()"
    by (simp add: 1)
  from at_empty c1 c2 4
  have 5: "fst (ensure_function_exists emulator_create_function ''zip''
            (snd (ensure_function_exists emulator_create_function ''zip'' ([], [])))) = Inr ()"
    by blast
  from created 1 conflict 2 refused other 3 4 5 show ?thesis
    by blast
qed

end
